theory Spec2Isabelle
  imports Complex_Main
begin

section \<open>Conventions of the embedding\<close>

text \<open>
  The repository is a numeric Python pipeline (\<^verbatim>\<open>src/python/preprocess_full.py\<close>,
  \<^verbatim>\<open>src/python/refine_results.py\<close>). Python floats and numpy \<^verbatim>\<open>float64\<close> arrays are
  read as \<^typ>\<open>real\<close> and \<^typ>\<open>real list\<close>: rounding, infinities and NaN are outside the
  model. Array indices and lengths are \<^typ>\<open>nat\<close>. Every place where the Python raises is a
  branch returning \<open>Inl\<close> of the exception.

  The dynamic-time-warping routines of the third-party package \<^verbatim>\<open>dtaidistance\<close> and the
  interpolator \<^verbatim>\<open>scipy.interpolate.interp1d\<close> are not part of the repository; the functions
  that call them take them as parameters.
\<close>

datatype py_error = IndexError | ValueError | TypeError | ZeroDivisionError | NonFinite | RankDeficient

text \<open>\<^verbatim>\<open>xs[i]\<close> for a non-negative index: raises IndexError out of range.\<close>

definition py_get :: "'a list \<Rightarrow> nat \<Rightarrow> py_error + 'a" where
  "py_get xs i = (if i < length xs then Inr (xs ! i) else Inl IndexError)"

text \<open>\<^verbatim>\<open>xs[mask]\<close> for a boolean array \<^verbatim>\<open>mask\<close>: numpy raises IndexError when the
  mask's length differs from the array's.\<close>

definition bool_index :: "'a list \<Rightarrow> bool list \<Rightarrow> py_error + 'a list" where
  "bool_index xs msk =
     (if length msk = length xs then Inr (map fst (filter snd (zip xs msk)))
      else Inl IndexError)"

text \<open>\<^verbatim>\<open>np.mean\<close> and \<^verbatim>\<open>np.median\<close> of a one-dimensional array (called on non-empty
  arrays only).\<close>

definition np_mean :: "real list \<Rightarrow> real" where
  "np_mean xs = sum_list xs / real (length xs)"

definition np_median :: "real list \<Rightarrow> real" where
  "np_median xs =
     (let s = sort xs; n = length s
      in if odd n then s ! (n div 2) else (s ! (n div 2 - 1) + s ! (n div 2)) / 2)"

text \<open>\<^verbatim>\<open>np.log2\<close> on a scalar: finite exactly on positive arguments (the quotient of two
  floats with a zero divisor, and the logarithm of a non-positive number, are
  infinities or NaN in numpy).\<close>

definition np_log2 :: "real \<Rightarrow> py_error + real" where
  "np_log2 x = (if 0 < x then Inr (log 2 x) else Inl NonFinite)"

definition float_div :: "real \<Rightarrow> real \<Rightarrow> py_error + real" where
  "float_div x y = (if y = 0 then Inl NonFinite else Inr (x / y))"

section \<open>PhraseScorer (\<^verbatim>\<open>refine_results.py\<close>)\<close>

record PhraseMetrics =
  accuracy :: real
  median_cents_error :: real
  on_beat_pct :: real
  timing_offset :: real
  dtw_cost :: real

text \<open>\<^verbatim>\<open>extract_phrase_pitch\<close>: \<^verbatim>\<open>mask = (times >= start) & (times <= end)\<close>, then
  \<^verbatim>\<open>times[mask], f0[mask]\<close>.\<close>

definition extract_phrase_pitch ::
  "real list \<Rightarrow> real list \<Rightarrow> real \<Rightarrow> real \<Rightarrow> py_error + (real list \<times> real list)" where
  "extract_phrase_pitch tms f0 start_t end_t =
     (let msk = map (\<lambda>t. start_t \<le> t \<and> t \<le> end_t) tms
      in case bool_index tms msk of
           Inl e \<Rightarrow> Inl e
         | Inr tsel \<Rightarrow> (case bool_index f0 msk of
                        Inl e \<Rightarrow> Inl e
                      | Inr fsel \<Rightarrow> Inr (tsel, fsel)))"

type_synonym dtw_distance_fn = "real list \<Rightarrow> real list \<Rightarrow> real"
type_synonym dtw_warping_path_fn = "real list \<Rightarrow> real list \<Rightarrow> (nat \<times> nat) list"

text \<open>\<^verbatim>\<open>align_phrase_dtw\<close>. The third-party \<^verbatim>\<open>dtw.distance\<close> and \<^verbatim>\<open>dtw.warping_path\<close>
  are the parameters \<open>dtw_distance\<close> and \<open>dtw_warping_path\<close>; the path is a list of index
  pairs, \<^verbatim>\<open>path[:, 0]\<close> its first column and \<^verbatim>\<open>path[:, 1]\<close> its second.\<close>

definition align_phrase_dtw ::
  "dtw_distance_fn \<Rightarrow> dtw_warping_path_fn \<Rightarrow> real list \<Rightarrow> real list
     \<Rightarrow> real \<times> nat list \<times> nat list" where
  "align_phrase_dtw dtw_distance dtw_warping_path ref_pitch singer_pitch =
     (let ref_voiced = filter (\<lambda>x. 0 < x) ref_pitch;
          singer_voiced = filter (\<lambda>x. 0 < x) singer_pitch
      in if length ref_voiced < 3 \<or> length singer_voiced < 3 then (1, [], [])
         else
           (let distance = dtw_distance ref_voiced singer_voiced;
                normalized_cost =
                  distance / real (max (length ref_voiced) (length singer_voiced));
                path = dtw_warping_path ref_voiced singer_voiced
            in (normalized_cost, map fst path, map snd path)))"

text \<open>The first loop of \<^verbatim>\<open>calculate_phrase_metrics\<close> (lines 118-126): the cents errors of
  the aligned frames, appended in path order.\<close>

fun cents_loop ::
  "real list \<Rightarrow> real list \<Rightarrow> (nat \<times> nat) list \<Rightarrow> real list \<Rightarrow> py_error + real list" where
  "cents_loop ref_f0 singer_f0 [] cents_errors = Inr cents_errors"
| "cents_loop ref_f0 singer_f0 ((r_idx, s_idx) # rest) cents_errors =
     (case py_get ref_f0 r_idx of
        Inl e \<Rightarrow> Inl e
      | Inr ref_freq \<Rightarrow>
          (case py_get singer_f0 s_idx of
             Inl e \<Rightarrow> Inl e
           | Inr singer_freq \<Rightarrow>
               if 0 < ref_freq \<and> 0 < singer_freq then
                 (case float_div singer_freq ref_freq of
                    Inl e \<Rightarrow> Inl e
                  | Inr q \<Rightarrow>
                      (case np_log2 q of
                         Inl e \<Rightarrow> Inl e
                       | Inr l \<Rightarrow>
                           cents_loop ref_f0 singer_f0 rest (cents_errors @ [1200 * l])))
               else cents_loop ref_f0 singer_f0 rest cents_errors))"

text \<open>The second loop (lines 139-143): the timing offsets, guarded by the bounds test.\<close>

fun timing_loop ::
  "real list \<Rightarrow> real list \<Rightarrow> (nat \<times> nat) list \<Rightarrow> real list \<Rightarrow> real list" where
  "timing_loop ref_t singer_t [] timing_offsets = timing_offsets"
| "timing_loop ref_t singer_t ((r_idx, s_idx) # rest) timing_offsets =
     (if r_idx < length ref_t \<and> s_idx < length singer_t
      then timing_loop ref_t singer_t rest
             (timing_offsets @ [singer_t ! s_idx - ref_t ! r_idx])
      else timing_loop ref_t singer_t rest timing_offsets)"

definition degenerate_metrics :: "real \<Rightarrow> PhraseMetrics" where
  "degenerate_metrics c =
     \<lparr>accuracy = 0, median_cents_error = 0, on_beat_pct = 0, timing_offset = 0,
      dtw_cost = c\<rparr>"

definition calculate_phrase_metrics ::
  "dtw_distance_fn \<Rightarrow> dtw_warping_path_fn \<Rightarrow> real list \<Rightarrow> real list \<Rightarrow> real list
     \<Rightarrow> real list \<Rightarrow> real \<Rightarrow> real \<Rightarrow> py_error + PhraseMetrics" where
  "calculate_phrase_metrics dtw_distance dtw_warping_path ref_times ref_pitch
       singer_times singer_pitch phrase_start phrase_end =
     (case extract_phrase_pitch ref_times ref_pitch phrase_start phrase_end of
        Inl e \<Rightarrow> Inl e
      | Inr (ref_t, ref_f0) \<Rightarrow>
     (case extract_phrase_pitch singer_times singer_pitch phrase_start phrase_end of
        Inl e \<Rightarrow> Inl e
      | Inr (singer_t, singer_f0) \<Rightarrow>
     if length ref_f0 = 0 \<or> length singer_f0 = 0 then Inr (degenerate_metrics 1)
     else
       (case align_phrase_dtw dtw_distance dtw_warping_path ref_f0 singer_f0 of
          (cost, ref_idx, singer_idx) \<Rightarrow>
       if length ref_idx = 0 then Inr (degenerate_metrics cost)
       else
         (case cents_loop ref_f0 singer_f0 (zip ref_idx singer_idx) [] of
            Inl e \<Rightarrow> Inl e
          | Inr cents_errors \<Rightarrow>
         (let (median_err, acc) =
                (if length cents_errors = 0 then (0, 0)
                 else (np_median cents_errors,
                       real (length (filter (\<lambda>e. \<bar>e\<bar> \<le> 50) cents_errors))
                         / real (length cents_errors)));
              timing_offsets = timing_loop ref_t singer_t (zip ref_idx singer_idx) [];
              t_off = (if timing_offsets \<noteq> [] then np_mean timing_offsets else 0)
          in Inr \<lparr>accuracy = acc, median_cents_error = median_err, on_beat_pct = acc,
                   timing_offset = t_off, dtw_cost = cost\<rparr>)))))"

section \<open>Alignment segments (\<^verbatim>\<open>preprocess_full.py\<close>)\<close>

text \<open>\<^verbatim>\<open>PreprocessorConfig\<close>: the constants the modelled functions read.\<close>

definition MIN_NOTE_DURATION :: real where
  "MIN_NOTE_DURATION = 2 / 10"

definition PITCH_CONF_THRESHOLD :: real where
  "PITCH_CONF_THRESHOLD = 3 / 10"

definition REF_FPS :: real where
  "REF_FPS = 50"

text \<open>\<^verbatim>\<open>class AlignmentSegment\<close>; the fields \<^verbatim>\<open>a\<close> and \<^verbatim>\<open>b\<close> are \<open>seg_a\<close> and \<open>seg_b\<close>.\<close>

record AlignmentSegment =
  tk_start :: real
  tk_end :: real
  seg_a :: real
  seg_b :: real
  quality :: real

definition map_time :: "AlignmentSegment \<Rightarrow> real \<Rightarrow> real" where
  "map_time seg tk = seg_a seg * tk + seg_b seg"

section \<open>WarpFitter: the merge pass of \<^verbatim>\<open>fit_piecewise_linear\<close>\<close>

text \<open>Lines 262-289: \<open>merged\<close> grows at its end, and its last entry is replaced on a
  merge.\<close>

fun merge_loop :: "AlignmentSegment list \<Rightarrow> AlignmentSegment list \<Rightarrow> AlignmentSegment list" where
  "merge_loop [] merged = merged"
| "merge_loop (seg # segments) merged =
     (if merged = [] then merge_loop segments (merged @ [seg])
      else
        (let lst = last merged
         in if \<bar>seg_a seg - seg_a lst\<bar> < 1 / 100 \<and> \<bar>seg_b seg - seg_b lst\<bar> < 1 / 10
               \<and> 8 / 10 < quality seg \<and> 8 / 10 < quality lst
            then merge_loop segments
                   (merged[length merged - 1 :=
                      \<lparr>tk_start = tk_start lst, tk_end = tk_end seg,
                       seg_a = (seg_a seg + seg_a lst) / 2,
                       seg_b = (seg_b seg + seg_b lst) / 2,
                       quality = min (quality seg) (quality lst)\<rparr>])
            else merge_loop segments (merged @ [seg])))"

text \<open>The merge pass in the words of the specification: scanning in order, the current
  segment \<open>cur\<close> is merged into the previous one \<open>prev\<close> when the slopes differ by less
  than 0.01, the intercepts by less than 0.1, and both qualities exceed 0.8; the merged
  segment has the mean slope, the mean intercept and the smaller quality. (The time
  range of the merged segment, from the start of \<open>prev\<close> to the end of \<open>cur\<close>, is the
  code's; the specification does not give it.)\<close>

definition spec_mergeable :: "AlignmentSegment \<Rightarrow> AlignmentSegment \<Rightarrow> bool" where
  "spec_mergeable prev cur =
     (\<bar>seg_a cur - seg_a prev\<bar> < 1 / 100 \<and> \<bar>seg_b cur - seg_b prev\<bar> < 1 / 10
      \<and> 8 / 10 < quality cur \<and> 8 / 10 < quality prev)"

definition spec_merged :: "AlignmentSegment \<Rightarrow> AlignmentSegment \<Rightarrow> AlignmentSegment" where
  "spec_merged prev cur =
     \<lparr>tk_start = tk_start prev, tk_end = tk_end cur,
      seg_a = (seg_a prev + seg_a cur) / 2,
      seg_b = (seg_b prev + seg_b cur) / 2,
      quality = min (quality prev) (quality cur)\<rparr>"

fun spec_merge_pass :: "AlignmentSegment list \<Rightarrow> AlignmentSegment list" where
  "spec_merge_pass [] = []"
| "spec_merge_pass [prev] = [prev]"
| "spec_merge_pass (prev # cur # rest) =
     (if spec_mergeable prev cur then spec_merge_pass (spec_merged prev cur # rest)
      else prev # spec_merge_pass (cur # rest))"

section \<open>PitchWarper (\<^verbatim>\<open>warp_pitch_to_karaoke\<close>)\<close>

text \<open>\<^verbatim>\<open>np.argmin\<close> of a Python list of floats: the first index of the least value;
  ValueError on an empty list.\<close>

fun argmin_loop :: "real list \<Rightarrow> nat \<Rightarrow> nat \<Rightarrow> real \<Rightarrow> nat" where
  "argmin_loop [] i best best_val = best"
| "argmin_loop (x # xs) i best best_val =
     (if x < best_val then argmin_loop xs (Suc i) i x
      else argmin_loop xs (Suc i) best best_val)"

definition np_argmin :: "real list \<Rightarrow> py_error + nat" where
  "np_argmin xs = (case xs of [] \<Rightarrow> Inl ValueError | x # rest \<Rightarrow> Inr (argmin_loop rest 1 0 x))"

text \<open>Lines 397-401: the first segment whose range holds \<open>tk\<close>, if any.\<close>

fun first_covering :: "AlignmentSegment list \<Rightarrow> real \<Rightarrow> AlignmentSegment option" where
  "first_covering [] tk = None"
| "first_covering (seg # segs) tk =
     (if tk_start seg \<le> tk \<and> tk \<le> tk_end seg then Some seg else first_covering segs tk)"

text \<open>Lines 397-406: the segment used for \<open>tk\<close>.\<close>

definition select_segment :: "AlignmentSegment list \<Rightarrow> real \<Rightarrow> py_error + AlignmentSegment" where
  "select_segment alignment_segments tk =
     (case first_covering alignment_segments tk of
        Some seg \<Rightarrow> Inr seg
      | None \<Rightarrow>
          (let distances = map (\<lambda>seg. \<bar>tk - tk_start seg\<bar>) alignment_segments
           in case np_argmin distances of
                Inl e \<Rightarrow> Inl e
              | Inr k \<Rightarrow> py_get alignment_segments k))"

text \<open>Lines 388-390: \<^verbatim>\<open>num_frames = int(duration_k * fps)\<close>,
  \<^verbatim>\<open>tk_grid = np.arange(num_frames) / fps\<close>. \<^verbatim>\<open>int\<close> truncates towards zero and
  \<^verbatim>\<open>np.arange\<close> of a number below 1 is empty, so a negative duration gives the empty
  grid, as \<open>nat\<close> of the floor does.\<close>

definition tk_grid :: "real \<Rightarrow> real list" where
  "tk_grid duration_k = map (\<lambda>i. real i / REF_FPS) [0..<nat \<lfloor>duration_k * REF_FPS\<rfloor>]"

text \<open>Lines 395-409: the loop filling \<^verbatim>\<open>tref_mapped\<close>.\<close>

fun map_grid :: "AlignmentSegment list \<Rightarrow> real list \<Rightarrow> py_error + real list" where
  "map_grid alignment_segments [] = Inr []"
| "map_grid alignment_segments (tk # tks) =
     (case select_segment alignment_segments tk of
        Inl e \<Rightarrow> Inl e
      | Inr segment \<Rightarrow>
          (case map_grid alignment_segments tks of
             Inl e \<Rightarrow> Inl e
           | Inr rest \<Rightarrow> Inr (map_time segment tk # rest)))"

text \<open>Lines 431-440: the exponential moving average. \<open>prev\<close> is \<^verbatim>\<open>f0_smooth[i-1]\<close>.\<close>

fun ema_loop :: "real \<Rightarrow> real list \<Rightarrow> real \<Rightarrow> real list" where
  "ema_loop alpha [] prev = []"
| "ema_loop alpha (w # ws) prev =
     (let s = (if 0 < w \<and> 0 < prev then alpha * w + (1 - alpha) * prev else w)
      in s # ema_loop alpha ws s)"

text \<open>\<^verbatim>\<open>f0_smooth[0] = f0_warped[0]\<close> raises IndexError on an empty array.\<close>

definition ema_smooth :: "real list \<Rightarrow> py_error + real list" where
  "ema_smooth f0_warped =
     (case f0_warped of
        [] \<Rightarrow> Inl IndexError
      | w0 # ws \<Rightarrow> Inr (w0 # ema_loop (3 / 10) ws w0))"

text \<open>\<^verbatim>\<open>scipy.interpolate.interp1d(x, y, kind='linear', bounds_error=False,
  fill_value=0.0)\<close> is the parameter \<open>interp1d\<close>: it raises or gives the interpolating
  function.\<close>

type_synonym interp1d_fn = "real list \<Rightarrow> real list \<Rightarrow> py_error + (real \<Rightarrow> real)"

definition warp_pitch_to_karaoke ::
  "interp1d_fn \<Rightarrow> real list \<Rightarrow> real list \<Rightarrow> real list \<Rightarrow> AlignmentSegment list \<Rightarrow> real
     \<Rightarrow> py_error + (real list \<times> real list \<times> real list)" where
  "warp_pitch_to_karaoke interp1d times_ref f0_ref conf_ref alignment_segments duration_k =
     (let grid = tk_grid duration_k
      in case map_grid alignment_segments grid of
           Inl e \<Rightarrow> Inl e
         | Inr tref_mapped \<Rightarrow>
        (case interp1d times_ref f0_ref of
           Inl e \<Rightarrow> Inl e
         | Inr f0_interp \<Rightarrow>
        (case interp1d times_ref conf_ref of
           Inl e \<Rightarrow> Inl e
         | Inr conf_interp \<Rightarrow>
        (let f0_warped = map f0_interp tref_mapped;
             conf_warped = map conf_interp tref_mapped
         in case ema_smooth f0_warped of
              Inl e \<Rightarrow> Inl e
            | Inr f0_smooth \<Rightarrow> Inr (grid, f0_smooth, conf_warped)))))"

section \<open>The refinement stage (\<^verbatim>\<open>refine_results\<close>)\<close>

text \<open>\<^verbatim>\<open>np.linspace(start, stop, num)\<close> with the end point included.\<close>

definition np_linspace :: "real \<Rightarrow> real \<Rightarrow> nat \<Rightarrow> real list" where
  "np_linspace start stop num =
     (if num = 1 then [start]
      else map (\<lambda>i. start + real i * ((stop - start) / real (num - 1))) [0..<num])"

text \<open>The JSON documents. A key that may be absent (read with \<^verbatim>\<open>dict.get(key, [])\<close>) is an
  option; \<open>get_default\<close> is the read.\<close>

record Phrase =
  phrase_id :: int
  phrase_start :: real
  phrase_end :: real

record PitchPoint =
  pt_t :: real
  pt_f0 :: real

record Reference =
  phrases_k :: "Phrase list option"
  f0_ref_on_k :: "PitchPoint list option"

record Performance =
  timestamps :: "real list option"
  pitch :: "real list option"

record RefinedPhrase =
  rp_id :: int
  rp_start :: real
  rp_end :: real
  rp_metrics :: PhraseMetrics

record ChartPoint =
  cp_t :: real
  cp_ref_f0 :: real
  cp_perf_f0 :: real

record RefinedResults =
  version :: string
  overall_accuracy :: real
  overall_median_cents_error :: real
  phrases :: "RefinedPhrase list"
  pitch_timeline :: "ChartPoint list"
  phrase_accuracy :: "real list"

definition get_default :: "'a list option \<Rightarrow> 'a list" where
  "get_default v = (case v of None \<Rightarrow> [] | Some xs \<Rightarrow> xs)"

definition generate_pitch_chart ::
  "interp1d_fn \<Rightarrow> real list \<Rightarrow> real list \<Rightarrow> real list \<Rightarrow> real list
     \<Rightarrow> py_error + ChartPoint list" where
  "generate_pitch_chart interp1d ref_times ref_pitch perf_times perf_pitch =
     (if length ref_times = 0 \<or> length perf_times = 0 then Inr []
      else
        (let t_min = min (hd ref_times) (hd perf_times);
             t_max = max (last ref_times) (last perf_times);
             t_common = np_linspace t_min t_max 500
         in case interp1d ref_times ref_pitch of
              Inl e \<Rightarrow> Inl e
            | Inr ref_interp \<Rightarrow>
                (case interp1d perf_times perf_pitch of
                   Inl e \<Rightarrow> Inl e
                 | Inr perf_interp \<Rightarrow>
                     Inr (map (\<lambda>t. \<lparr>cp_t = t, cp_ref_f0 = ref_interp t,
                                      cp_perf_f0 = perf_interp t\<rparr>) t_common))))"

text \<open>Lines 186-205: the loop over the phrases.\<close>

fun refine_phrases ::
  "dtw_distance_fn \<Rightarrow> dtw_warping_path_fn \<Rightarrow> real list \<Rightarrow> real list \<Rightarrow> real list
     \<Rightarrow> real list \<Rightarrow> Phrase list \<Rightarrow> py_error + RefinedPhrase list" where
  "refine_phrases dtw_distance dtw_warping_path ref_times ref_pitch perf_times perf_pitch [] =
     Inr []"
| "refine_phrases dtw_distance dtw_warping_path ref_times ref_pitch perf_times perf_pitch
       (phrase # rest) =
     (case calculate_phrase_metrics dtw_distance dtw_warping_path ref_times ref_pitch
             perf_times perf_pitch (phrase_start phrase) (phrase_end phrase) of
        Inl e \<Rightarrow> Inl e
      | Inr metrics \<Rightarrow>
          (case refine_phrases dtw_distance dtw_warping_path ref_times ref_pitch perf_times
                  perf_pitch rest of
             Inl e \<Rightarrow> Inl e
           | Inr refined \<Rightarrow>
               Inr (\<lparr>rp_id = phrase_id phrase, rp_start = phrase_start phrase,
                     rp_end = phrase_end phrase, rp_metrics = metrics\<rparr> # refined)))"

definition refine_results ::
  "dtw_distance_fn \<Rightarrow> dtw_warping_path_fn \<Rightarrow> interp1d_fn \<Rightarrow> Reference \<Rightarrow> Performance
     \<Rightarrow> py_error + RefinedResults" where
  "refine_results dtw_distance dtw_warping_path interp1d reference performance =
     (let phrase_list = get_default (phrases_k reference);
          ref_pitch_data = get_default (f0_ref_on_k reference);
          ref_times = map pt_t ref_pitch_data;
          ref_pitch = map pt_f0 ref_pitch_data;
          perf_times = get_default (timestamps performance);
          perf_pitch = get_default (pitch performance)
      in case refine_phrases dtw_distance dtw_warping_path ref_times ref_pitch perf_times
                perf_pitch phrase_list of
           Inl e \<Rightarrow> Inl e
         | Inr refined_phrases \<Rightarrow>
             (let overall_acc =
                    (if refined_phrases \<noteq> []
                     then np_mean (map (\<lambda>p. accuracy (rp_metrics p)) refined_phrases) else 0);
                  median_error =
                    (if refined_phrases \<noteq> []
                     then np_median (map (\<lambda>p. median_cents_error (rp_metrics p)) refined_phrases)
                     else 0)
              in case generate_pitch_chart interp1d ref_times ref_pitch perf_times perf_pitch of
                   Inl e \<Rightarrow> Inl e
                 | Inr chart \<Rightarrow>
                     Inr \<lparr>version = ''2.0'', overall_accuracy = overall_acc,
                          overall_median_cents_error = median_error,
                          phrases = refined_phrases, pitch_timeline = chart,
                          phrase_accuracy =
                            map (\<lambda>p. accuracy (rp_metrics p)) refined_phrases\<rparr>))"

section \<open>SequenceAligner (\<^verbatim>\<open>align_with_dtw\<close>)\<close>

text \<open>\<^verbatim>\<open>np.interp(x, xp, fp)\<close> for increasing sample points \<open>xp\<close> (numpy does not check the
  order and documents the result as meaningless otherwise): \<open>fp[0]\<close> left of the
  samples, \<open>fp[-1]\<close> right of them, and in between the line through the two samples
  around \<open>x\<close>. It raises ValueError on empty sample points and on \<open>xp\<close>, \<open>fp\<close> of
  different lengths.\<close>

fun interp_scan :: "real \<Rightarrow> (real \<times> real) list \<Rightarrow> real" where
  "interp_scan x [] = 0"
| "interp_scan x [(x0, y0)] = y0"
| "interp_scan x ((x0, y0) # (x1, y1) # ps) =
     (if x < x1 then y0 + (y1 - y0) / (x1 - x0) * (x - x0)
      else interp_scan x ((x1, y1) # ps))"

definition np_interp :: "real list \<Rightarrow> real list \<Rightarrow> real list \<Rightarrow> py_error + real list" where
  "np_interp xs xp fp =
     (if xp = [] \<or> length xp \<noteq> length fp then Inl ValueError
      else Inr (map (\<lambda>x. if x < hd xp then hd fp else interp_scan x (zip xp fp)) xs))"

text \<open>\<^verbatim>\<open>xs[::10]\<close>, \<^verbatim>\<open>xs[idx]\<close> for an index array, and Python's \<^verbatim>\<open>int\<close> of a float.\<close>

definition every_10th :: "'a list \<Rightarrow> 'a list" where
  "every_10th xs = map (\<lambda>i. xs ! (10 * i)) [0..<(length xs + 9) div 10]"

fun fancy_index :: "'a list \<Rightarrow> nat list \<Rightarrow> py_error + 'a list" where
  "fancy_index xs [] = Inr []"
| "fancy_index xs (i # idx) =
     (case py_get xs i of
        Inl e \<Rightarrow> Inl e
      | Inr v \<Rightarrow> (case fancy_index xs idx of Inl e \<Rightarrow> Inl e | Inr vs \<Rightarrow> Inr (v # vs)))"

definition py_int :: "real \<Rightarrow> int" where
  "py_int x = (if 0 \<le> x then \<lfloor>x\<rfloor> else \<lceil>x\<rceil>)"

text \<open>\<^verbatim>\<open>dtw.warping_path(s1, s2, window=w)\<close> of \<^verbatim>\<open>dtaidistance\<close> is the parameter.\<close>

type_synonym dtw_banded_path_fn = "real list \<Rightarrow> real list \<Rightarrow> int \<Rightarrow> (nat \<times> nat) list"

text \<open>\<^verbatim>\<open>align_with_dtw\<close>. A chroma array is held frame by frame: the list of its frames,
  each the list of its twelve bins, so that \<^verbatim>\<open>chroma[:, ::10]\<close> takes every tenth frame
  and \<^verbatim>\<open>.mean(axis=0)\<close> is the mean of each frame. The result is the returned triple
  \<^verbatim>\<open>(tk_aligned, tref_aligned, quality)\<close>.\<close>

definition align_with_dtw ::
  "dtw_banded_path_fn \<Rightarrow> real list list \<Rightarrow> real list list \<Rightarrow> real list \<Rightarrow> real list \<Rightarrow> real
     \<Rightarrow> py_error + (real list \<times> real list \<times> real)" where
  "align_with_dtw dtw_warping_path chroma_k chroma_ref times_k times_ref band_width =
     (if max (length times_k) (length times_ref) = 0 then Inl ZeroDivisionError
      else if real_of_int \<bar>int (length times_k) - int (length times_ref)\<bar>
                / real (max (length times_k) (length times_ref)) < 1 / 10
      then
        (let indices = np_linspace 0 (real (length times_ref) - 1) (length times_k)
         in case np_interp indices (map real [0..<length times_ref]) times_ref of
              Inl e \<Rightarrow> Inl e
            | Inr tref_aligned \<Rightarrow> Inr (times_k, tref_aligned, 95 / 100))
      else
        (let chroma_k_down = every_10th chroma_k;
             chroma_ref_down = every_10th chroma_ref;
             times_k_down = every_10th times_k;
             times_ref_down = every_10th times_ref;
             window = py_int (band_width
                        * real (max (length times_k_down) (length times_ref_down)));
             chroma_k_mean = map np_mean chroma_k_down;
             chroma_ref_mean = map np_mean chroma_ref_down;
             path = dtw_warping_path chroma_k_mean chroma_ref_mean window
         in case fancy_index times_k_down (map fst path) of
              Inl e \<Rightarrow> Inl e
            | Inr tk_path \<Rightarrow>
           (case fancy_index times_ref_down (map snd path) of
              Inl e \<Rightarrow> Inl e
            | Inr tref_path \<Rightarrow>
           (case np_interp times_k tk_path tref_path of
              Inl e \<Rightarrow> Inl e
            | Inr tk_aligned \<Rightarrow> Inr (tk_aligned, times_k, 85 / 100)))))"

section \<open>WarpFitter (\<^verbatim>\<open>fit_piecewise_linear\<close>)\<close>

text \<open>\<^verbatim>\<open>np.polyfit(x, y, 1)\<close>: the least-squares line, slope first. It raises TypeError on
  an empty \<open>x\<close> and on \<open>x\<close>, \<open>y\<close> of different lengths. When all \<open>x\<close> are equal the problem
  is rank deficient; numpy then answers with a minimum-norm solution that depends on
  its floating-point rank cut-off, and the model stops with \<open>RankDeficient\<close> instead.\<close>

definition np_polyfit1 :: "real list \<Rightarrow> real list \<Rightarrow> py_error + (real \<times> real)" where
  "np_polyfit1 xs ys =
     (if xs = [] \<or> length xs \<noteq> length ys then Inl TypeError
      else
        (let n = real (length xs);
             mx = sum_list xs / n;
             my = sum_list ys / n;
             sxx = sum_list (map (\<lambda>x. (x - mx)\<^sup>2) xs);
             sxy = sum_list (map (\<lambda>(x, y). (x - mx) * (y - my)) (zip xs ys))
         in if sxx = 0 then Inl RankDeficient
            else Inr (sxy / sxx, my - sxy / sxx * mx)))"

text \<open>Lines 235-239 and 252-260: the line through a window and its \<open>R\<^sup>2\<close>, as a segment
  from the window's first to its last time.\<close>

definition fit_segment :: "real list \<Rightarrow> real list \<Rightarrow> py_error + AlignmentSegment" where
  "fit_segment tk_win tref_win =
     (case np_polyfit1 tk_win tref_win of
        Inl e \<Rightarrow> Inl e
      | Inr (a, b) \<Rightarrow>
          (let y_pred = map (\<lambda>t. a * t + b) tk_win;
               ss_res = sum_list (map (\<lambda>(y, p). (y - p)\<^sup>2) (zip tref_win y_pred));
               ss_tot = sum_list (map (\<lambda>y. (y - np_mean tref_win)\<^sup>2) tref_win)
                          + 1 / 100000000;
               r2 = 1 - ss_res / ss_tot
           in Inr \<lparr>tk_start = hd tk_win, tk_end = last tk_win, seg_a = a, seg_b = b,
                    quality = r2\<rparr>))"

text \<open>Lines 245-260: the sliding windows, one per start index.\<close>

fun fit_windows ::
  "real list \<Rightarrow> real list \<Rightarrow> nat \<Rightarrow> nat list \<Rightarrow> py_error + AlignmentSegment list" where
  "fit_windows tk tref window [] = Inr []"
| "fit_windows tk tref window (i # starts) =
     (let end_idx = min (i + window) (length tk);
          tk_win = take (end_idx - i) (drop i tk);
          tref_win = take (end_idx - i) (drop i tref)
      in case fit_segment tk_win tref_win of
           Inl e \<Rightarrow> Inl e
         | Inr seg \<Rightarrow>
             (case fit_windows tk tref window starts of
                Inl e \<Rightarrow> Inl e
              | Inr segs \<Rightarrow> Inr (seg # segs)))"

text \<open>\<^verbatim>\<open>fit_piecewise_linear\<close>; \<^verbatim>\<open>range(0, n - window + 1, step)\<close> raises ValueError for
  the step 0. The window size is a natural number.\<close>

definition fit_piecewise_linear ::
  "real list \<Rightarrow> real list \<Rightarrow> nat \<Rightarrow> py_error + AlignmentSegment list" where
  "fit_piecewise_linear tk tref window =
     (let n = length tk
      in if n < window then
           (case fit_segment tk tref of Inl e \<Rightarrow> Inl e | Inr seg \<Rightarrow> Inr [seg])
         else
           (let step = window div 2
            in if step = 0 then Inl ValueError
               else
                 (case fit_windows tk tref window
                         (map (\<lambda>k. k * step) [0..<(n - window + step) div step]) of
                    Inl e \<Rightarrow> Inl e
                  | Inr segments \<Rightarrow> Inr (merge_loop segments []))))"

section \<open>NoteBinSegmenter (\<^verbatim>\<open>create_note_bins\<close>)\<close>

record NoteBin =
  nb_start :: real
  nb_end :: real
  nb_f0 :: real
  tol_cents :: real

text \<open>Line 458: \<^verbatim>\<open>(f0 > 0) & (confidence > threshold)\<close>. numpy stretches an array of
  length one to the other's length and raises ValueError on any other two lengths.\<close>

definition voiced_mask :: "real list \<Rightarrow> real list \<Rightarrow> py_error + bool list" where
  "voiced_mask f0 confidence =
     (if length f0 = length confidence
      then Inr (map (\<lambda>(f, c). 0 < f \<and> PITCH_CONF_THRESHOLD < c) (zip f0 confidence))
      else if length f0 = 1
      then Inr (map (\<lambda>c. 0 < hd f0 \<and> PITCH_CONF_THRESHOLD < c) confidence)
      else if length confidence = 1
      then Inr (map (\<lambda>f. 0 < f \<and> PITCH_CONF_THRESHOLD < hd confidence) f0)
      else Inl ValueError)"

text \<open>Lines 461-474: the maximal voiced runs as pairs \<open>(start_idx, end_idx)\<close>, the end
  exclusive. \<open>i\<close> is the loop index, and the length of the array once the scan is over.\<close>

fun find_runs :: "bool list \<Rightarrow> nat \<Rightarrow> bool \<Rightarrow> nat \<Rightarrow> (nat \<times> nat) list \<Rightarrow> (nat \<times> nat) list" where
  "find_runs [] i in_segment start_idx segments =
     (if in_segment then segments @ [(start_idx, i)] else segments)"
| "find_runs (v # vs) i in_segment start_idx segments =
     (if v \<and> \<not> in_segment then find_runs vs (Suc i) True i segments
      else if \<not> v \<and> in_segment
      then find_runs vs (Suc i) False start_idx (segments @ [(start_idx, i)])
      else find_runs vs (Suc i) in_segment start_idx segments)"

text \<open>Lines 477-497: one bin per run that is long enough.\<close>

fun bins_loop ::
  "real list \<Rightarrow> real list \<Rightarrow> real \<Rightarrow> (nat \<times> nat) list \<Rightarrow> NoteBin list
     \<Rightarrow> py_error + NoteBin list" where
  "bins_loop tms f0 tolerance_cents [] note_bins = Inr note_bins"
| "bins_loop tms f0 tolerance_cents ((start_idx, end_idx) # rest) note_bins =
     (case py_get tms (end_idx - 1) of
        Inl e \<Rightarrow> Inl e
      | Inr t_end \<Rightarrow>
     (case py_get tms start_idx of
        Inl e \<Rightarrow> Inl e
      | Inr t_start \<Rightarrow>
     (let duration = t_end - t_start
      in if duration < MIN_NOTE_DURATION
         then bins_loop tms f0 tolerance_cents rest note_bins
         else
           (let segment_f0 = take (end_idx - start_idx) (drop start_idx f0);
                segment_f0_voiced = filter (\<lambda>x. 0 < x) segment_f0
            in if length segment_f0_voiced = 0
               then bins_loop tms f0 tolerance_cents rest note_bins
               else bins_loop tms f0 tolerance_cents rest
                      (note_bins @ [\<lparr>nb_start = t_start, nb_end = t_end,
                                      nb_f0 = np_median segment_f0_voiced,
                                      tol_cents = tolerance_cents\<rparr>])))))"

definition create_note_bins ::
  "real list \<Rightarrow> real list \<Rightarrow> real list \<Rightarrow> real \<Rightarrow> py_error + NoteBin list" where
  "create_note_bins tms f0 confidence tolerance_cents =
     (case voiced_mask f0 confidence of
        Inl e \<Rightarrow> Inl e
      | Inr voiced \<Rightarrow>
          bins_loop tms f0 tolerance_cents (find_runs voiced 0 False 0 []) [])"

section \<open>Verified properties\<close>

subsection \<open>Auxiliary facts: boolean-mask indexing\<close>

lemma bool_index_self:
  "bool_index xs (map Q xs) = Inr (filter Q xs)"
proof -
  have "map fst (filter snd (zip xs (map Q xs))) = filter Q xs"
    by (induction xs) auto
  then show ?thesis by (simp add: bool_index_def)
qed

lemma bool_index_other:
  assumes "length tms = length f0"
  shows "bool_index f0 (map Q tms) = Inr (map snd (filter (\<lambda>p. Q (fst p)) (zip tms f0)))"
proof -
  from assms have "map fst (filter snd (zip f0 (map Q tms)))
      = map snd (filter (\<lambda>p. Q (fst p)) (zip tms f0))"
    by (induction tms f0 rule: list_induct2) auto
  with assms show ?thesis by (simp add: bool_index_def)
qed

lemma extract_phrase_pitch_parallel:
  assumes "length tms = length f0"
  shows "extract_phrase_pitch tms f0 s e =
           Inr (filter (\<lambda>t. s \<le> t \<and> t \<le> e) tms,
                map snd (filter (\<lambda>p. s \<le> fst p \<and> fst p \<le> e) (zip tms f0)))"
  using assms
  by (simp add: extract_phrase_pitch_def bool_index_self bool_index_other)

lemma voiced_in_phrase:
  "filter (\<lambda>x. 0 < x) (map snd (filter (\<lambda>p. s \<le> fst p \<and> fst p \<le> e) (zip tms f0)))
     = map snd (filter (\<lambda>(t, f). s \<le> t \<and> t \<le> e \<and> 0 < f) (zip tms (f0::real list)))"
  by (induction "zip tms f0" arbitrary: tms f0)
     (auto simp: filter_map o_def case_prod_unfold intro!: filter_cong)

subsection \<open>PhraseScorer: too few voiced samples\<close>

text \<open>
  Claim C2. The reference and singer series are parallel arrays (times and pitch of equal
  length). If, inside the phrase window \<open>[ps, pe]\<close>, the reference or the singer has fewer
  than three voiced samples (\<open>f0 > 0\<close>), \<open>calculate_phrase_metrics\<close> returns normally, with
  accuracy 0, median cents error 0, on-beat share 0, timing offset 0 and DTW cost 1,
  whatever the DTW routines would compute.
\<close>

theorem C2_insufficient_data_degenerate:
  assumes "length ref_times = length ref_pitch"
    and "length singer_times = length singer_pitch"
    and "length (filter (\<lambda>(t, f). ps \<le> t \<and> t \<le> pe \<and> 0 < f) (zip ref_times ref_pitch)) < 3
       \<or> length (filter (\<lambda>(t, f). ps \<le> t \<and> t \<le> pe \<and> 0 < f)
                    (zip singer_times singer_pitch)) < 3"
  shows "calculate_phrase_metrics dtw_d dtw_p ref_times ref_pitch singer_times singer_pitch ps pe
     = Inr \<lparr>accuracy = 0, median_cents_error = 0, on_beat_pct = 0, timing_offset = 0,
            dtw_cost = 1\<rparr>"
proof -
  let ?rf = "map snd (filter (\<lambda>p. ps \<le> fst p \<and> fst p \<le> pe) (zip ref_times ref_pitch))"
  let ?sf = "map snd (filter (\<lambda>p. ps \<le> fst p \<and> fst p \<le> pe) (zip singer_times singer_pitch))"
  have short: "length (filter (\<lambda>x. 0 < x) ?rf) < 3 \<or> length (filter (\<lambda>x. 0 < x) ?sf) < 3"
    using assms(3) by (simp add: voiced_in_phrase)
  then have al: "align_phrase_dtw dtw_d dtw_p ?rf ?sf = (1, [], [])"
    unfolding align_phrase_dtw_def Let_def by (simp only: if_True)
  show ?thesis
    unfolding calculate_phrase_metrics_def
    by (simp add: extract_phrase_pitch_parallel assms(1,2) al degenerate_metrics_def
          del: length_0_conv)
qed

text \<open>An all-unvoiced singer against a voiced reference, on the phrase \<open>[0, 3]\<close>.\<close>

theorem C2_insufficient_data_degenerate_witness:
  "calculate_phrase_metrics (\<lambda>r s. 7) (\<lambda>r s. [(0, 0)])
       [0, 1, 2, 3] [220, 220, 230, 240] [0, 1, 2, 3] [0, 0, 0, 0] 0 3
     = Inr \<lparr>accuracy = 0, median_cents_error = 0, on_beat_pct = 0, timing_offset = 0,
            dtw_cost = 1\<rparr>"
proof -
  have h1: "length [0, 1, 2, 3::real] = length [220, 220, 230, 240::real]" by simp
  have h2: "length [0, 1, 2, 3::real] = length [0, 0, 0, 0::real]" by simp
  have h3: "length (filter (\<lambda>(t, f). (0::real) \<le> t \<and> t \<le> 3 \<and> (0::real) < f)
                     (zip [0, 1, 2, 3] [220, 220, 230, 240])) < 3
       \<or> length (filter (\<lambda>(t, f). (0::real) \<le> t \<and> t \<le> 3 \<and> (0::real) < f)
                    (zip [0, 1, 2, 3] [0, 0, 0, 0])) < 3"
    by simp
  from C2_insufficient_data_degenerate[OF h1 h2 h3] show ?thesis .
qed

subsection \<open>PhraseScorer: index safety of the two metric loops\<close>





subsection \<open>PhraseScorer: a singer identical to the reference\<close>




subsection \<open>WarpFitter: the merge pass\<close>

lemma merge_loop_step:
  "merge_loop (seg # segs) (pre @ [l]) =
     (if spec_mergeable l seg then merge_loop segs (pre @ [spec_merged l seg])
      else merge_loop segs (pre @ [l, seg]))"
  by (simp add: Let_def spec_mergeable_def spec_merged_def add.commute min.commute)

lemma merge_loop_spec:
  "merge_loop segs (pre @ [l]) = pre @ spec_merge_pass (l # segs)"
proof (induction segs arbitrary: pre l)
  case Nil
  then show ?case by simp
next
  case (Cons seg segs)
  show ?case
  proof (cases "spec_mergeable l seg")
    case True
    with Cons.IH[of pre "spec_merged l seg"] show ?thesis
      by (simp only: merge_loop_step if_True spec_merge_pass.simps)
  next
    case False
    with Cons.IH[of "pre @ [l]" seg] show ?thesis
      by (simp only: merge_loop_step if_False spec_merge_pass.simps append.simps append_assoc)
  qed
qed

text \<open>
  Claim C5. The merge loop of \<open>fit_piecewise_linear\<close>, started on the empty list, computes
  the merge pass of the specification: each segment in turn is merged into the segment
  before it (the last one kept so far) exactly when the slope difference is below 0.01,
  the intercept difference below 0.1 and both qualities above 0.8, and is kept as a new
  segment otherwise; a merged segment has the mean slope, the mean intercept and the
  smaller quality of the two.
\<close>

theorem C5_merge_pass_refines_spec: "merge_loop segments [] = spec_merge_pass segments"
proof (cases segments)
  case Nil
  then show ?thesis by simp
next
  case (Cons seg segs)
  then show ?thesis using merge_loop_spec[of segs "[]" seg] by simp
qed

subsection \<open>PitchWarper: the segment lookup\<close>

lemma first_covering_Some:
  assumes "first_covering segs tk = Some seg"
  shows "\<exists>pre post. segs = pre @ seg # post \<and> tk_start seg \<le> tk \<and> tk \<le> tk_end seg
           \<and> (\<forall>s \<in> set pre. \<not> (tk_start s \<le> tk \<and> tk \<le> tk_end s))"
  using assms
proof (induction segs)
  case Nil
  then show ?case by simp
next
  case (Cons s segs)
  show ?case
  proof (cases "tk_start s \<le> tk \<and> tk \<le> tk_end s")
    case True
    with Cons.prems have "s = seg" by simp
    with True show ?thesis by (intro exI[of _ "[]"] exI[of _ segs]) simp
  next
    case False
    with Cons obtain pre post where "segs = pre @ seg # post" "tk_start seg \<le> tk" "tk \<le> tk_end seg"
      "\<forall>s \<in> set pre. \<not> (tk_start s \<le> tk \<and> tk \<le> tk_end s)"
      by auto
    with False show ?thesis by (intro exI[of _ "s # pre"] exI[of _ post]) auto
  qed
qed

lemma first_covering_None:
  "first_covering segs tk = None \<longleftrightarrow> (\<forall>s \<in> set segs. \<not> (tk_start s \<le> tk \<and> tk \<le> tk_end s))"
  by (induction segs) auto

lemma argmin_loop_spec:
  assumes "length pre = i" "best < i" "pre ! best = bv" "\<forall>y \<in> set pre. bv \<le> y"
    "\<forall>j<best. bv < pre ! j"
  shows "argmin_loop xs i best bv < length (pre @ xs)
       \<and> (\<forall>y \<in> set (pre @ xs). (pre @ xs) ! argmin_loop xs i best bv \<le> y)
       \<and> (\<forall>j<argmin_loop xs i best bv. (pre @ xs) ! argmin_loop xs i best bv < (pre @ xs) ! j)"
  using assms
proof (induction xs arbitrary: pre i best bv)
  case Nil
  then show ?case by simp
next
  case (Cons x xs)
  show ?case
  proof (cases "x < bv")
    case True
    have "argmin_loop xs (Suc i) i x < length ((pre @ [x]) @ xs)
       \<and> (\<forall>y \<in> set ((pre @ [x]) @ xs). ((pre @ [x]) @ xs) ! argmin_loop xs (Suc i) i x \<le> y)
       \<and> (\<forall>j<argmin_loop xs (Suc i) i x. ((pre @ [x]) @ xs) ! argmin_loop xs (Suc i) i x < ((pre @ [x]) @ xs) ! j)"
    proof (rule Cons.IH)
      show "length (pre @ [x]) = Suc i" using Cons.prems by simp
      show "i < Suc i" by simp
      show "(pre @ [x]) ! i = x" using Cons.prems by (simp add: nth_append)
      show "\<forall>y\<in>set (pre @ [x]). x \<le> y" using Cons.prems True by fastforce
      show "\<forall>j<i. x < (pre @ [x]) ! j"
      proof (intro allI impI)
        fix j assume "j < i"
        then have "pre ! j \<in> set pre" using Cons.prems by simp
        then have "bv \<le> pre ! j" using Cons.prems by blast
        with True have "x < pre ! j" by simp
        with \<open>j < i\<close> Cons.prems(1) show "x < (pre @ [x]) ! j" by (simp add: nth_append)
      qed
    qed
    with True show ?thesis by simp
  next
    case False
    have "argmin_loop xs (Suc i) best bv < length ((pre @ [x]) @ xs)
       \<and> (\<forall>y \<in> set ((pre @ [x]) @ xs). ((pre @ [x]) @ xs) ! argmin_loop xs (Suc i) best bv \<le> y)
       \<and> (\<forall>j<argmin_loop xs (Suc i) best bv. ((pre @ [x]) @ xs) ! argmin_loop xs (Suc i) best bv < ((pre @ [x]) @ xs) ! j)"
    proof (rule Cons.IH)
      show "length (pre @ [x]) = Suc i" using Cons.prems by simp
      show "best < Suc i" using Cons.prems by simp
      show "(pre @ [x]) ! best = bv" using Cons.prems by (simp add: nth_append)
      show "\<forall>y\<in>set (pre @ [x]). bv \<le> y" using Cons.prems False by auto
      show "\<forall>j<best. bv < (pre @ [x]) ! j" using Cons.prems by (simp add: nth_append)
    qed
    with False show ?thesis by simp
  qed
qed

lemma np_argmin_spec:
  assumes "xs \<noteq> []"
  shows "\<exists>k. np_argmin xs = Inr k \<and> k < length xs \<and> (\<forall>y \<in> set xs. xs ! k \<le> y)
           \<and> (\<forall>j<k. xs ! k < xs ! j)"
proof -
  from assms obtain x rest where xs: "xs = x # rest" by (cases xs) auto
  have "argmin_loop rest 1 0 x < length ([x] @ rest)
       \<and> (\<forall>y \<in> set ([x] @ rest). ([x] @ rest) ! argmin_loop rest 1 0 x \<le> y)
       \<and> (\<forall>j<argmin_loop rest 1 0 x. ([x] @ rest) ! argmin_loop rest 1 0 x < ([x] @ rest) ! j)"
    by (rule argmin_loop_spec) simp_all
  then show ?thesis by (simp add: xs np_argmin_def)
qed

lemma select_segment_spec:
  assumes "segs \<noteq> []"
  shows "\<exists>seg. select_segment segs tk = Inr seg \<and> seg \<in> set segs
     \<and> ((\<exists>pre post. segs = pre @ seg # post \<and> tk_start seg \<le> tk \<and> tk \<le> tk_end seg
            \<and> (\<forall>s \<in> set pre. \<not> (tk_start s \<le> tk \<and> tk \<le> tk_end s)))
        \<or> ((\<forall>s \<in> set segs. \<not> (tk_start s \<le> tk \<and> tk \<le> tk_end s))
            \<and> (\<forall>s \<in> set segs. \<bar>tk - tk_start seg\<bar> \<le> \<bar>tk - tk_start s\<bar>)))"
proof (cases "first_covering segs tk")
  case (Some seg)
  from first_covering_Some[OF Some] obtain pre post where
    *: "segs = pre @ seg # post" "tk_start seg \<le> tk" "tk \<le> tk_end seg"
       "\<forall>s \<in> set pre. \<not> (tk_start s \<le> tk \<and> tk \<le> tk_end s)"
    by blast
  then have "seg \<in> set segs" by simp
  with Some * show ?thesis unfolding select_segment_def by auto
next
  case None
  let ?d = "map (\<lambda>seg. \<bar>tk - tk_start seg\<bar>) segs"
  from assms have "?d \<noteq> []" by simp
  from np_argmin_spec[OF this] obtain k where
    k: "np_argmin ?d = Inr k" "k < length ?d" "\<forall>y \<in> set ?d. ?d ! k \<le> y"
    by blast
  then have kl: "k < length segs" by simp
  have sel: "select_segment segs tk = Inr (segs ! k)"
    using None k(1) kl by (simp add: select_segment_def py_get_def)
  have close: "\<forall>s \<in> set segs. \<bar>tk - tk_start (segs ! k)\<bar> \<le> \<bar>tk - tk_start s\<bar>"
  proof
    fix s assume "s \<in> set segs"
    then have "\<bar>tk - tk_start s\<bar> \<in> set ?d" by auto
    with k(3) have "?d ! k \<le> \<bar>tk - tk_start s\<bar>" by blast
    with kl show "\<bar>tk - tk_start (segs ! k)\<bar> \<le> \<bar>tk - tk_start s\<bar>" by simp
  qed
  from None have "\<forall>s \<in> set segs. \<not> (tk_start s \<le> tk \<and> tk \<le> tk_end s)"
    by (simp add: first_covering_None)
  with sel close kl show ?thesis by auto
qed

lemma map_grid_total:
  assumes "segs \<noteq> []"
  shows "\<exists>tref. map_grid segs tks = Inr tref \<and> length tref = length tks"
proof (induction tks)
  case Nil
  then show ?case by simp
next
  case (Cons tk tks)
  from select_segment_spec[OF assms, of tk] obtain seg where "select_segment segs tk = Inr seg"
    by blast
  with Cons show ?case by auto
qed

text \<open>
  Claim C6. With a non-empty segment list the lookup loop over the grid
  \<open>tk = i / 50\<close>, \<open>i < int(duration_k * 50)\<close>, raises nothing and maps every grid time.
  For each grid time the segment used is a member of the list: the first one whose range
  \<open>[tk_start, tk_end]\<close> holds \<open>tk\<close>, or, when no range holds \<open>tk\<close>, one whose \<open>tk_start\<close> is
  nearest to \<open>tk\<close>.
\<close>

theorem C6_segment_lookup_total:
  assumes "alignment_segments \<noteq> []"
  shows "(\<exists>tref_mapped. map_grid alignment_segments (tk_grid duration_k) = Inr tref_mapped
            \<and> length tref_mapped = length (tk_grid duration_k))
       \<and> (\<forall>tk \<in> set (tk_grid duration_k).
            \<exists>seg. select_segment alignment_segments tk = Inr seg \<and> seg \<in> set alignment_segments
              \<and> ((\<exists>pre post. alignment_segments = pre @ seg # post
                     \<and> tk_start seg \<le> tk \<and> tk \<le> tk_end seg
                     \<and> (\<forall>s \<in> set pre. \<not> (tk_start s \<le> tk \<and> tk \<le> tk_end s)))
                  \<or> ((\<forall>s \<in> set alignment_segments. \<not> (tk_start s \<le> tk \<and> tk \<le> tk_end s))
                     \<and> (\<forall>s \<in> set alignment_segments.
                           \<bar>tk - tk_start seg\<bar> \<le> \<bar>tk - tk_start s\<bar>))))"
  using map_grid_total[OF assms] select_segment_spec[OF assms] by blast

text \<open>Two segments with the gap \<open>(1, 3)\<close> and a grid of 250 frames over \<open>[0, 5)\<close>.\<close>

theorem C6_segment_lookup_total_witness:
  "\<exists>tref_mapped.
     map_grid [\<lparr>tk_start = 0, tk_end = 1, seg_a = 1, seg_b = 0, quality = 1\<rparr>,
               \<lparr>tk_start = 3, tk_end = 4, seg_a = 2, seg_b = 1, quality = 1\<rparr>] (tk_grid 5)
       = Inr tref_mapped
     \<and> length tref_mapped = length (tk_grid 5)"
proof -
  have h: "[\<lparr>tk_start = 0, tk_end = 1, seg_a = 1, seg_b = 0, quality = 1\<rparr>,
            \<lparr>tk_start = 3, tk_end = 4, seg_a = 2, seg_b = 1, quality = 1\<rparr>] \<noteq> []"
    by simp
  from C6_segment_lookup_total[OF h, of 5] show ?thesis by blast
qed

subsection \<open>PitchWarper: the moving average\<close>

lemma ema_loop_length: "length (ema_loop alpha ws p) = length ws"
  by (induction ws arbitrary: p) (simp_all add: Let_def)

lemma ema_loop_nth:
  assumes "i < length ws"
  shows "ema_loop alpha ws p ! i =
           (if 0 < ws ! i \<and> 0 < (if i = 0 then p else ema_loop alpha ws p ! (i - 1))
            then alpha * ws ! i + (1 - alpha) * (if i = 0 then p else ema_loop alpha ws p ! (i - 1))
            else ws ! i)"
  using assms
proof (induction ws arbitrary: p i)
  case Nil
  then show ?case by simp
next
  case (Cons w ws)
  show ?case
  proof (cases i)
    case 0
    then show ?thesis by (simp add: Let_def)
  next
    case (Suc k)
    with Cons.prems have k: "k < length ws" by simp
    let ?s = "if 0 < w \<and> 0 < p then alpha * w + (1 - alpha) * p else w"
    have unf: "ema_loop alpha (w # ws) p = ?s # ema_loop alpha ws ?s"
      by (simp add: Let_def)
    show ?thesis
    proof (cases k)
      case 0
      with Suc Cons.IH[OF k, of ?s] show ?thesis unfolding unf by simp
    next
      case (Suc m)
      with \<open>i = Suc k\<close> Cons.IH[OF k, of ?s] show ?thesis unfolding unf by simp
    qed
  qed
qed

lemma ema_loop_sign:
  assumes "i < length ws" "0 < alpha" "alpha < 1" "0 \<le> ws ! i"
  shows "(0 < ema_loop alpha ws p ! i \<longleftrightarrow> 0 < ws ! i) \<and> 0 \<le> ema_loop alpha ws p ! i"
proof -
  define q where "q = (if i = 0 then p else ema_loop alpha ws p ! (i - 1))"
  have eq: "ema_loop alpha ws p ! i =
              (if 0 < ws ! i \<and> 0 < q then alpha * ws ! i + (1 - alpha) * q else ws ! i)"
    unfolding q_def by (rule ema_loop_nth[OF assms(1)])
  show ?thesis
  proof (cases "0 < ws ! i \<and> 0 < q")
    case True
    then have "0 < alpha * ws ! i" "0 < (1 - alpha) * q" using assms by simp_all
    then have "0 < alpha * ws ! i + (1 - alpha) * q" by linarith
    with True eq show ?thesis by simp
  next
    case False
    with eq have "ema_loop alpha ws p ! i = ws ! i" by simp
    with assms(4) show ?thesis by simp
  qed
qed

text \<open>
  Claim C7. On a non-empty, non-negative warped contour the smoothing returns a contour
  of the same length whose first sample is the input's. At every later index the output
  is \<open>0.3 * warped[i] + 0.7 * output[i-1]\<close> when the current and the previous warped
  sample are both voiced (positive), and is \<open>warped[i]\<close> itself when either is unvoiced
  (zero). The output is zero exactly where the input is zero.
\<close>

theorem C7_ema_voiced_runs:
  assumes ne: "f0_warped \<noteq> []" and nonneg: "\<forall>x \<in> set f0_warped. 0 \<le> x"
  shows "\<exists>f0_smooth. ema_smooth f0_warped = Inr f0_smooth
     \<and> length f0_smooth = length f0_warped
     \<and> f0_smooth ! 0 = f0_warped ! 0
     \<and> (\<forall>i. 0 < i \<and> i < length f0_warped \<longrightarrow>
          (if 0 < f0_warped ! i \<and> 0 < f0_warped ! (i - 1)
           then f0_smooth ! i = 3 / 10 * f0_warped ! i + 7 / 10 * f0_smooth ! (i - 1)
           else f0_smooth ! i = f0_warped ! i))
     \<and> (\<forall>i < length f0_warped. f0_smooth ! i = 0 \<longleftrightarrow> f0_warped ! i = 0)"
proof -
  from ne obtain w0 ws where w: "f0_warped = w0 # ws" by (cases f0_warped) auto
  define out where "out = w0 # ema_loop (3 / 10) ws w0"
  have res: "ema_smooth f0_warped = Inr out" by (simp add: ema_smooth_def w out_def)
  have len: "length out = length f0_warped" by (simp add: w ema_loop_length out_def)
  have out0: "out ! 0 = f0_warped ! 0" by (simp add: out_def w)
  have sign: "(0 < out ! i \<longleftrightarrow> 0 < f0_warped ! i) \<and> 0 \<le> out ! i"
    if "i < length f0_warped" for i
  proof (cases i)
    case 0
    have "w0 \<in> set f0_warped" by (simp add: w)
    with nonneg have "0 \<le> w0" by blast
    with 0 show ?thesis by (simp add: w out_def)
  next
    case (Suc k)
    with that have k: "k < length ws" by (simp add: w)
    then have "ws ! k \<in> set f0_warped" by (simp add: w)
    with nonneg have "0 \<le> ws ! k" by blast
    from ema_loop_sign[OF k _ _ this, of "3 / 10" w0] show ?thesis
      by (simp add: Suc w out_def)
  qed
  have zero: "out ! i = 0 \<longleftrightarrow> f0_warped ! i = 0" if "i < length f0_warped" for i
  proof -
    have "f0_warped ! i \<in> set f0_warped" using that by simp
    with nonneg have "0 \<le> f0_warped ! i" by blast
    with sign[OF that] show ?thesis by linarith
  qed
  have step: "if 0 < f0_warped ! i \<and> 0 < f0_warped ! (i - 1)
           then out ! i = 3 / 10 * f0_warped ! i + 7 / 10 * out ! (i - 1)
           else out ! i = f0_warped ! i" if "0 < i" "i < length f0_warped" for i
  proof -
    from that obtain k where i: "i = Suc k" by (cases i) auto
    with that have k: "k < length ws" by (simp add: w)
    have kk: "k < length f0_warped" using k by (simp add: w)
    have prev: "(if k = 0 then w0 else ema_loop (3 / 10) ws w0 ! (k - 1)) = out ! k"
      by (cases k) (simp_all add: out_def)
    have pos: "0 < out ! k \<longleftrightarrow> 0 < f0_warped ! k" using sign[OF kk] by simp
    have "ema_loop (3 / 10) ws w0 ! k = (if 0 < ws ! k \<and> 0 < out ! k
            then 3 / 10 * ws ! k + (1 - 3 / 10) * out ! k else ws ! k)"
      using ema_loop_nth[OF k, of "3 / 10" w0] unfolding prev .
    then have "out ! i = (if 0 < f0_warped ! i \<and> 0 < f0_warped ! k
            then 3 / 10 * f0_warped ! i + 7 / 10 * out ! k else f0_warped ! i)"
      unfolding pos by (simp add: i w out_def)
    then show ?thesis by (simp add: i)
  qed
  from res len out0 zero step show ?thesis
    by (intro exI[of _ out]) simp
qed

text \<open>A contour with two notes: the smoothed contour is \<open>[0, 100, 130, 0, 300]\<close>.\<close>

theorem C7_ema_voiced_runs_witness:
  "\<exists>f0_smooth. ema_smooth [0, 100, 200, 0, 300] = Inr f0_smooth
     \<and> length f0_smooth = length [0, 100, 200, 0, 300 :: real]
     \<and> f0_smooth ! 0 = [0, 100, 200, 0, 300] ! 0
     \<and> (\<forall>i. 0 < i \<and> i < length [0, 100, 200, 0, 300 :: real] \<longrightarrow>
          (if 0 < [0, 100, 200, 0, 300 :: real] ! i \<and> 0 < [0, 100, 200, 0, 300 :: real] ! (i - 1)
           then f0_smooth ! i = 3 / 10 * [0, 100, 200, 0, 300] ! i + 7 / 10 * f0_smooth ! (i - 1)
           else f0_smooth ! i = [0, 100, 200, 0, 300] ! i))
     \<and> (\<forall>i < length [0, 100, 200, 0, 300 :: real].
           f0_smooth ! i = 0 \<longleftrightarrow> [0, 100, 200, 0, 300 :: real] ! i = 0)"
proof -
  have h1: "[0, 100, 200, 0, 300 :: real] \<noteq> []" by simp
  have h2: "\<forall>x \<in> set [0, 100, 200, 0, 300 :: real]. 0 \<le> x" by simp
  from C7_ema_voiced_runs[OF h1 h2] show ?thesis .
qed

end
